theory Spec2Isabelle
  imports Main "HOL-Library.Sublist"
begin

section \<open>Strings as the program uses them\<close>

text \<open>
  Python strings are modelled as \<^typ>\<open>string\<close>. The operations the sources use are
  \<open>a in b\<close> (contiguous occurrence, \<^const>\<open>sublist\<close>), \<open>str.lower\<close>,
  \<open>str.lstrip('/')\<close>, \<open>str.replace\<close> of a single character, and the decimal
  rendering of an integer inside an f-string.
\<close>

definition py_in :: "string \<Rightarrow> string \<Rightarrow> bool" where
  \<comment> \<open>\<open>needle in haystack\<close>\<close>
  "py_in needle haystack = sublist needle haystack"

definition lower_char :: "char \<Rightarrow> char" where
  "lower_char c =
     (if (65::nat) \<le> of_char c \<and> of_char c \<le> (90::nat)
      then char_of (of_char c + (32::nat)) else c)"

definition py_lower :: "string \<Rightarrow> string" where
  \<comment> \<open>\<open>s.lower()\<close> on the letters A to Z; every other character is kept\<close>
  "py_lower s = map lower_char s"

definition lstrip_slash :: "string \<Rightarrow> string" where
  \<comment> \<open>\<open>path.lstrip('/')\<close>: every leading slash is removed\<close>
  "lstrip_slash path = dropWhile (\<lambda>c. c = CHR ''/'') path"

definition py_replace :: "char \<Rightarrow> string \<Rightarrow> string \<Rightarrow> string" where
  \<comment> \<open>\<open>s.replace(c, new)\<close> for a one-character pattern\<close>
  "py_replace c new s = concat (map (\<lambda>x. if x = c then new else [x]) s)"

definition digit_char :: "nat \<Rightarrow> char" where
  "digit_char d = ''0123456789'' ! d"

function str_nat :: "nat \<Rightarrow> string" where
  "str_nat n = (if n < 10 then [digit_char n] else str_nat (n div 10) @ [digit_char (n mod 10)])"
  by pat_completeness auto
termination
  by (relation "measure id") auto

declare str_nat.simps [simp del]

definition str_int :: "int \<Rightarrow> string" where
  \<comment> \<open>\<open>f"{port}"\<close> for a Python int\<close>
  "str_int i = (if i < 0 then CHR ''-'' # str_nat (nat (- i)) else str_nat (nat i))"

section \<open>Regular expressions of \<open>re.match\<close>\<close>

text \<open>
  The private-range check hands three patterns to \<open>re.match\<close>. The fragment of the
  pattern language they use is embedded as a datatype: the anchor \<open>^\<close>, a run of
  literal characters (an escaped dot is the literal dot), a character range
  \<open>[a-b]\<close>, concatenation and alternation. \<open>rx_run\<close> returns every way the pattern
  can consume a prefix of the input, as the list of positions and remainders the
  backtracking matcher would try; \<open>re_match\<close> succeeds when there is one.
\<close>

datatype regex =
    Start
  | Str string
  | Range char char
  | Seq regex regex
  | Alt regex regex

fun rx_run :: "regex \<Rightarrow> nat \<times> string \<Rightarrow> (nat \<times> string) list" where
  "rx_run Start (pos, s) = (if pos = 0 then [(pos, s)] else [])"
| "rx_run (Str lit) (pos, s) =
     (if prefix lit s then [(pos + length lit, drop (length lit) s)] else [])"
| "rx_run (Range a b) (pos, s) =
     (case s of
        [] \<Rightarrow> []
      | x # xs \<Rightarrow>
          if (of_char a :: nat) \<le> of_char x \<and> (of_char x :: nat) \<le> of_char b
          then [(Suc pos, xs)] else [])"
| "rx_run (Seq r1 r2) p = concat (map (rx_run r2) (rx_run r1 p))"
| "rx_run (Alt r1 r2) p = rx_run r1 p @ rx_run r2 p"

definition re_match :: "regex \<Rightarrow> string \<Rightarrow> bool" where
  "re_match pattern s = (rx_run pattern (0, s) \<noteq> [])"

section \<open>Target configuration (core/target\_config.py)\<close>

record TargetConfig =
  host :: string
  port :: int
  use_https :: bool
  confirmed :: bool

definition ALLOWED_HOSTS :: "string list" where
  "ALLOWED_HOSTS = [''localhost'', ''127.0.0.1'', ''::1'', ''0.0.0.0'']"

definition init_TargetConfig :: "string \<Rightarrow> int \<Rightarrow> bool \<Rightarrow> TargetConfig" where
  "init_TargetConfig h p s = \<lparr>host = h, port = p, use_https = s, confirmed = False\<rparr>"

definition base_url :: "TargetConfig \<Rightarrow> string" where
  "base_url cfg =
     (let scheme = (if use_https cfg then ''https'' else ''http'') in
      if port cfg \<in> {80, 443}
      then scheme @ ''://'' @ host cfg
      else scheme @ ''://'' @ host cfg @ '':'' @ str_int (port cfg))"

definition private_patterns :: "regex list" where
  "private_patterns =
     [ Seq Start (Str ''10.''),
       Seq Start (Seq (Str ''172.'')
         (Seq (Alt (Seq (Str ''1'') (Range CHR ''6'' CHR ''9''))
              (Alt (Seq (Str ''2'') (Range CHR ''0'' CHR ''9''))
                   (Seq (Str ''3'') (Range CHR ''0'' CHR ''1''))))
              (Str ''.''))),
       Seq Start (Str ''192.168.'') ]"

fun first_match :: "regex list \<Rightarrow> string \<Rightarrow> bool" where
  \<comment> \<open>the \<open>for pattern in private_patterns\<close> loop of \<open>_is_private_ip\<close>\<close>
  "first_match [] h = False"
| "first_match (pattern # rest) h = (if re_match pattern h then True else first_match rest h)"

definition is_private_ip :: "string \<Rightarrow> bool" where
  "is_private_ip h = first_match private_patterns h"

definition is_safe_target :: "TargetConfig \<Rightarrow> bool" where
  "is_safe_target cfg =
     (if py_lower (host cfg) \<in> set ALLOWED_HOSTS then True
      else if is_private_ip (host cfg) then True
      else confirmed cfg)"

definition confirm_target :: "TargetConfig \<Rightarrow> TargetConfig" where
  "confirm_target cfg = cfg\<lparr>confirmed := True\<rparr>"

definition get_dvwa_url :: "TargetConfig \<Rightarrow> string \<Rightarrow> string" where
  "get_dvwa_url cfg path = base_url cfg @ ''/'' @ lstrip_slash path"


subsection \<open>The safety gate as the specification words it\<close>

text \<open>
  The specification describes the gate by three conditions: the host equals an allowed
  name without regard to case, the host begins with a private prefix (\<open>10.\<close>,
  \<open>172.16.\<close> to \<open>172.31.\<close>, \<open>192.168.\<close>), or the target is confirmed. These
  definitions follow those words; the theorems compare them with the code above.
\<close>

definition ci_equals :: "string \<Rightarrow> string \<Rightarrow> bool" where
  "ci_equals a b = (py_lower a = py_lower b)"

definition second_octets :: "nat list" where
  "second_octets = [16 ..< 32]"

definition private_prefix :: "string \<Rightarrow> bool" where
  "private_prefix h =
     (prefix ''10.'' h
      \<or> list_ex (\<lambda>k. prefix (''172.'' @ str_nat k @ ''.'') h) second_octets
      \<or> prefix ''192.168.'' h)"

definition spec_is_safe :: "TargetConfig \<Rightarrow> bool" where
  "spec_is_safe cfg =
     (list_ex (ci_equals (host cfg)) ALLOWED_HOSTS \<or> private_prefix (host cfg) \<or> confirmed cfg)"

text \<open>A dotted quad: four decimal fields, each at most 255, separated by dots.\<close>

definition is_digit :: "char \<Rightarrow> bool" where
  "is_digit c = ((48::nat) \<le> of_char c \<and> of_char c \<le> (57::nat))"

fun split_dots :: "string \<Rightarrow> string list" where
  "split_dots [] = [[]]"
| "split_dots (c # cs) =
     (if c = CHR ''.'' then [] # split_dots cs
      else (case split_dots cs of [] \<Rightarrow> [[c]] | w # ws \<Rightarrow> (c # w) # ws))"

definition field_value :: "string \<Rightarrow> nat" where
  "field_value w = foldl (\<lambda>acc c. 10 * acc + (of_char c - 48)) 0 w"

definition is_octet :: "string \<Rightarrow> bool" where
  "is_octet w = (w \<noteq> [] \<and> list_all is_digit w \<and> field_value w \<le> 255)"

definition is_ipv4 :: "string \<Rightarrow> bool" where
  "is_ipv4 h = (length (split_dots h) = 4 \<and> list_all is_octet (split_dots h))"

subsection \<open>The URL builders as the specification words them\<close>

definition default_port :: "bool \<Rightarrow> int" where
  \<comment> \<open>80 for http, 443 for https\<close>
  "default_port https = (if https then 443 else 80)"

definition spec_base_url :: "TargetConfig \<Rightarrow> string" where
  "spec_base_url cfg =
     (if use_https cfg then ''https'' else ''http'') @ ''://'' @ host cfg @
     (if port cfg = default_port (use_https cfg) then [] else '':'' @ str_int (port cfg))"

definition strip_one_slash :: "string \<Rightarrow> string" where
  "strip_one_slash path = (case path of [] \<Rightarrow> [] | c # cs \<Rightarrow> if c = CHR ''/'' then cs else c # cs)"

definition spec_resolve_path :: "TargetConfig \<Rightarrow> string \<Rightarrow> string" where
  "spec_resolve_path cfg path = base_url cfg @ ''/'' @ strip_one_slash path"

section \<open>The process state, exceptions and the console\<close>

text \<open>
  Everything outside the repository is an explicit part of the state: the network answers
  through \<open>transport\<close> (a function of the requests already on the wire and the request
  being sent), \<open>prepare\<close> is the library's request preparation (it yields the final URL
  with its query string, or raises on a malformed URL), \<open>keyboard\<close> holds the lines the
  operator will type, and the three \<open>soup\<close> fields stand for the HTML parser. The
  mutable objects of the program are the remaining fields: the requests sent so far, the
  calls made on the logger, the recorder's file, the authenticator's \<open>_logged_in\<close> and
  \<open>security_level\<close>, and the two \<open>_injection_details_logged\<close> flags of the modules.

  An exception is a value. \<open>RequestException\<close> stands for
  \<open>requests.exceptions.RequestException\<close> and its subclasses (connection refused, DNS,
  timeout, malformed URL), \<open>OtherException\<close> for any other subclass of \<open>Exception\<close>,
  and \<open>KeyboardInterrupt\<close> for the operator's interrupt, which \<open>except Exception\<close>
  does not catch.
\<close>

datatype exn = RequestException string | OtherException string | KeyboardInterrupt

datatype http_method = GET | POST

record Request =
  req_method :: http_method
  req_url :: string
  req_params :: "(string \<times> string) list option"
  req_data :: "(string \<times> string) list option"

record Response =
  status_code :: int
  resp_text :: string
  resp_url :: string

datatype log_call =
    Operational string string
  | Educational string "string option"
  | Step nat string
  | ExplainSuccess string
  | ExplainFailure string "string option"
  | Payload string string
  | HttpRequest http_method string "(string \<times> string) list option"
  | HttpResponse int string

record state =
  prepare :: "Request \<Rightarrow> exn + string"
  transport :: "Request list \<Rightarrow> Request \<Rightarrow> exn + Response"
  keyboard :: "string option list"
  recorder_fails :: "Request \<Rightarrow> string option"
  soup_user_token :: "string \<Rightarrow> string option"
  soup_selected_option :: "string \<Rightarrow> string option option"
  explanations :: "string \<Rightarrow> string"
  user_agent :: "string option"
  has_recorder :: bool
  auth_base_url :: string
  wire :: "Request list"
  log :: "log_call list"
  recorded :: "Request list"
  logged_in :: bool
  security_level :: "string option"
  reflected_details_logged :: bool
  stored_details_logged :: bool

type_synonym 'a action = "state \<Rightarrow> (exn + 'a) \<times> state"

definition ret :: "'a \<Rightarrow> 'a action" where
  "ret x s = (Inr x, s)"

definition and_then :: "'a action \<Rightarrow> ('a \<Rightarrow> 'b action) \<Rightarrow> 'b action" where
  "and_then m f s = (case m s of (Inl e, s') \<Rightarrow> (Inl e, s') | (Inr x, s') \<Rightarrow> f x s')"

definition seq :: "unit action \<Rightarrow> 'a action \<Rightarrow> 'a action" where
  "seq m k = and_then m (\<lambda>_. k)"

definition skip :: "unit action" where
  "skip = ret ()"

text \<open>
  \<open>try: ... except requests.exceptions.RequestException as e\<close> and
  \<open>try: ... except Exception as e\<close>; the handler receives \<open>str(e)\<close>.
\<close>

definition except_RequestException :: "'a action \<Rightarrow> (string \<Rightarrow> 'a action) \<Rightarrow> 'a action" where
  "except_RequestException m handler s =
     (case m s of
        (Inl (RequestException msg), s') \<Rightarrow> handler msg s'
      | (Inl e, s') \<Rightarrow> (Inl e, s')
      | (Inr x, s') \<Rightarrow> (Inr x, s'))"

definition except_Exception :: "'a action \<Rightarrow> (string \<Rightarrow> 'a action) \<Rightarrow> 'a action" where
  "except_Exception m handler s =
     (case m s of
        (Inl (RequestException msg), s') \<Rightarrow> handler msg s'
      | (Inl (OtherException msg), s') \<Rightarrow> handler msg s'
      | (Inl KeyboardInterrupt, s') \<Rightarrow> (Inl KeyboardInterrupt, s')
      | (Inr x, s') \<Rightarrow> (Inr x, s'))"

subsection \<open>The logger collaborator\<close>

text \<open>
  The dual logger is outside the core; a call of one of its methods is recorded as one
  entry, in order. Long constant texts are abbreviated to a heading.
\<close>

definition logger :: "log_call \<Rightarrow> unit action" where
  "logger c s = (Inr (), s\<lparr>log := log s @ [c]\<rparr>)"

definition operational :: "string \<Rightarrow> string \<Rightarrow> unit action" where
  "operational message level = logger (Operational message level)"

definition educational :: "string \<Rightarrow> unit action" where
  "educational message = logger (Educational message None)"

subsection \<open>The operator's console\<close>

definition is_space :: "char \<Rightarrow> bool" where
  "is_space c = (c \<in> set [CHR '' '', CHR 0x09, CHR 0x0A, CHR 0x0B, CHR 0x0C, CHR 0x0D,
                           CHR 0x1C, CHR 0x1D, CHR 0x1E, CHR 0x1F])"

definition py_strip :: "string \<Rightarrow> string" where
  "py_strip s = rev (dropWhile is_space (rev (dropWhile is_space s)))"

definition get_user_approval :: "string \<Rightarrow> bool action" where
  \<comment> \<open>\<open>input()\<close> takes the next line; an exhausted or interrupted console raises
      \<open>EOFError\<close> or \<open>KeyboardInterrupt\<close>, both caught here\<close>
  "get_user_approval prompt s =
     (case keyboard s of
        [] \<Rightarrow> seq (operational ''User interrupted'' ''INFO'') (ret False) s
      | None # rest \<Rightarrow>
          seq (operational ''User interrupted'' ''INFO'') (ret False) (s\<lparr>keyboard := rest\<rparr>)
      | Some line # rest \<Rightarrow>
          (let response = py_lower (py_strip line) in
           seq (operational (''User response to '' @ prompt @ '': '' @ response) ''INFO'')
               (ret (response \<in> set [''y'', ''yes''])))
            (s\<lparr>keyboard := rest\<rparr>))"

definition approved :: "bool \<Rightarrow> string \<Rightarrow> bool action" where
  \<comment> \<open>\<open>not (interactive and not self._get_user_approval(prompt))\<close>: the console is
      only read in interactive mode\<close>
  "approved interactive prompt = (if interactive then get_user_approval prompt else ret True)"

section \<open>Request dispatcher (core/http\_client.py)\<close>

text \<open>
  \<open>requests.Response.__bool__\<close> is the response's \<open>ok\<close>: a response with a status
  from 400 to 599 is falsy, so \<open>if not response\<close> holds for \<open>None\<close> and for every
  such error response.
\<close>

definition response_ok :: "Response \<Rightarrow> bool" where
  "response_ok r = (\<not> (400 \<le> status_code r \<and> status_code r < 600))"

definition truthy :: "Response option \<Rightarrow> bool" where
  "truthy response = (case response of None \<Rightarrow> False | Some r \<Rightarrow> response_ok r)"

definition method_name :: "http_method \<Rightarrow> string" where
  "method_name m = (case m of GET \<Rightarrow> ''GET'' | POST \<Rightarrow> ''POST'')"

definition prepare_request :: "Request \<Rightarrow> string action" where
  "prepare_request req s = (prepare s req, s)"

definition session_send :: "Request \<Rightarrow> Response action" where
  "session_send req s = (transport s (wire s) req, s\<lparr>wire := wire s @ [req]\<rparr>)"

definition recorder_record :: "Request \<Rightarrow> unit action" where
  \<comment> \<open>\<open>BurpRequestRecorder.record\<close>: appends to its file; any failure is caught inside
      and logged as a warning\<close>
  "recorder_record req s =
     (case recorder_fails s req of
        None \<Rightarrow> (Inr (), s\<lparr>recorded := recorded s @ [req]\<rparr>)
      | Some exc \<Rightarrow>
          operational (''Failed to record request for Burp export: '' @ exc) ''WARNING'' s)"

definition send_try :: "Request \<Rightarrow> Response option action" where
  \<comment> \<open>the \<open>try\<close> block of \<open>HTTPClient._send\<close>\<close>
  "send_try request =
     and_then (prepare_request request) (\<lambda>prepared_url.
     seq (logger (HttpRequest (req_method request) prepared_url
            (if req_method request = GET then req_params request else req_data request)))
    (seq (\<lambda>s. if has_recorder s then recorder_record request s else skip s)
    (and_then (session_send request) (\<lambda>response.
     seq (logger (HttpResponse (status_code response) (take 200 (resp_text response))))
         (ret (Some response))))))"

definition send :: "http_method \<Rightarrow> string \<Rightarrow> (string \<times> string) list option
                      \<Rightarrow> (string \<times> string) list option \<Rightarrow> Response option action" where
  \<comment> \<open>\<open>HTTPClient._send\<close>\<close>
  "send method u params data =
     except_RequestException
       (send_try \<lparr>req_method = method, req_url = u, req_params = params, req_data = data\<rparr>)
       (\<lambda>e. seq (operational (method_name method @ '' request failed: '' @ e) ''ERROR'')
                 (ret None))"

definition http_get :: "string \<Rightarrow> (string \<times> string) list option \<Rightarrow> Response option action" where
  "http_get u params = send GET u params None"

definition http_post :: "string \<Rightarrow> (string \<times> string) list option \<Rightarrow> Response option action" where
  "http_post u data = send POST u None data"

definition encoded_variants :: "string \<Rightarrow> string list" where
  "encoded_variants payload =
     [ py_replace CHR ''>'' ''&gt;'' (py_replace CHR ''<'' ''&lt;'' payload),
       py_replace CHR ''>'' ''%3E'' (py_replace CHR ''<'' ''%3C'' payload) ]"

fun variants_loop :: "string list \<Rightarrow> string \<Rightarrow> bool action" where
  \<comment> \<open>the \<open>for variant in encoded_variants\<close> loop and the lines after it\<close>
  "variants_loop [] body = seq (operational ''Payload not found in response'' ''INFO'') (ret False)"
| "variants_loop (variant # rest) body =
     (if py_in variant body
      then seq (operational ''Payload appears encoded in response'' ''INFO'') (ret False)
      else variants_loop rest body)"

definition check_xss_reflection :: "Response option \<Rightarrow> string \<Rightarrow> bool action" where
  "check_xss_reflection response payload =
     (case response of
        None \<Rightarrow> ret False
      | Some r \<Rightarrow>
          if \<not> response_ok r then ret False
          else if py_in payload (resp_text r)
          then seq (operational ''Payload appears unencoded in response'' ''INFO'') (ret True)
          else variants_loop (encoded_variants payload) (resp_text r))"

text \<open>A freshly constructed session, logger, recorder, authenticator and modules.\<close>

definition fresh_state :: "(Request list \<Rightarrow> Request \<Rightarrow> exn + Response) \<Rightarrow> string option list \<Rightarrow> state" where
  "fresh_state net typed =
     \<lparr> prepare = (\<lambda>req. Inr (req_url req)),
       transport = net,
       keyboard = typed,
       recorder_fails = (\<lambda>req. None),
       soup_user_token = (\<lambda>html. None),
       soup_selected_option = (\<lambda>html. None),
       explanations = (\<lambda>key. []),
       user_agent = None,
       has_recorder = True,
       auth_base_url = ''http://localhost'',
       wire = [],
       log = [],
       recorded = [],
       logged_in = False,
       security_level = None,
       reflected_details_logged = False,
       stored_details_logged = False \<rparr>"

definition get_user_agent :: "state \<Rightarrow> string" where
  "get_user_agent s = (case user_agent s of None \<Rightarrow> ''python-requests'' | Some ua \<Rightarrow> ua)"

subsection \<open>The classifier as the specification words it\<close>

datatype matched_variant = Exact | HtmlEntityEncoded | UrlEncoded | NoMatch

definition spec_classify :: "string \<Rightarrow> string \<Rightarrow> matched_variant" where
  "spec_classify body payload =
     (if py_in payload body then Exact
      else if py_in (py_replace CHR ''>'' ''&gt;'' (py_replace CHR ''<'' ''&lt;'' payload)) body
        then HtmlEntityEncoded
      else if py_in (py_replace CHR ''>'' ''%3E'' (py_replace CHR ''<'' ''%3C'' payload)) body
        then UrlEncoded
      else NoMatch)"

definition spec_check_reflection :: "Response option \<Rightarrow> string \<Rightarrow> bool" where
  "spec_check_reflection response payload =
     (case response of None \<Rightarrow> False | Some r \<Rightarrow> spec_classify (resp_text r) payload = Exact)"

section \<open>Session authenticator (core/auth.py)\<close>

definition gets :: "(state \<Rightarrow> 'a) \<Rightarrow> 'a action" where
  \<comment> \<open>reading a field of an object\<close>
  "gets f s = (Inr (f s), s)"

definition modify :: "(state \<Rightarrow> state) \<Rightarrow> unit action" where
  \<comment> \<open>assigning a field of an object\<close>
  "modify f s = (Inr (), f s)"

definition session_get :: "string \<Rightarrow> Response action" where
  \<comment> \<open>\<open>self.session.get(url, timeout=10)\<close>: prepares and sends, with no logging\<close>
  "session_get u =
     (let request = \<lparr>req_method = GET, req_url = u, req_params = None, req_data = None\<rparr> in
      and_then (prepare_request request) (\<lambda>prepared_url. session_send request))"

definition session_post :: "string \<Rightarrow> (string \<times> string) list \<Rightarrow> Response action" where
  "session_post u data =
     (let request = \<lparr>req_method = POST, req_url = u, req_params = None, req_data = Some data\<rparr> in
      and_then (prepare_request request) (\<lambda>prepared_url. session_send request))"

definition extract_csrf_token :: "state \<Rightarrow> string \<Rightarrow> string option" where
  \<comment> \<open>\<open>soup.find('input', {'name': 'user_token'})\<close> and its non-empty \<open>value\<close>\<close>
  "extract_csrf_token s html =
     (case soup_user_token s html of
        None \<Rightarrow> None
      | Some v \<Rightarrow> if v \<noteq> [] then Some v else None)"

definition with_token :: "(string \<times> string) list \<Rightarrow> string option \<Rightarrow> (string \<times> string) list" where
  \<comment> \<open>\<open>if csrf_token: data['user_token'] = csrf_token\<close>\<close>
  "with_token data csrf_token =
     (case csrf_token of None \<Rightarrow> data | Some t \<Rightarrow> data @ [(''user_token'', t)])"

definition login_submit :: "string \<Rightarrow> string \<Rightarrow> string \<Rightarrow> string \<Rightarrow> bool action" where
  \<comment> \<open>the second half of the \<open>try\<close> block of \<open>login\<close>: extract the token from the
      login page, post the credentials, judge the response\<close>
  "login_submit username password login_url html =
     and_then (gets (\<lambda>s. extract_csrf_token s html)) (\<lambda>csrf_token.
     let login_data = with_token
           [(''username'', username), (''password'', password), (''Login'', ''Login'')]
           csrf_token in
     seq (case csrf_token of
            None \<Rightarrow> skip
          | Some t \<Rightarrow> operational (''Using CSRF token: '' @ take 10 t @ ''...'') ''DEBUG'')
    (seq (operational ''Submitting login credentials'' ''DEBUG'')
    (and_then (session_post login_url login_data) (\<lambda>response.
       if \<not> py_in ''login.php'' (resp_url response) \<and> status_code response = 200
       then seq (modify (\<lambda>s. s\<lparr>logged_in := True\<rparr>))
           (seq (operational ''Login successful'' ''INFO'')
           (seq (educational ''Successfully authenticated with DVWA'')
                (ret True)))
       else seq (operational ''Login failed - still on login page'' ''ERROR'')
                (ret False)))))"

definition login_try :: "string \<Rightarrow> string \<Rightarrow> bool action" where
  \<comment> \<open>the \<open>try\<close> block of \<open>login\<close>\<close>
  "login_try username password =
     and_then (gets auth_base_url) (\<lambda>base.
     let login_url = base @ ''/login.php'' in
     seq (operational (''Fetching login page: '' @ login_url) ''DEBUG'')
    (and_then (session_get login_url) (\<lambda>response.
       if status_code response \<noteq> 200
       then seq (operational (''Failed to fetch login page: '' @ str_int (status_code response))
                   ''ERROR'')
                (ret False)
       else login_submit username password login_url (resp_text response))))"

definition login :: "string \<Rightarrow> string \<Rightarrow> bool action" where
  "login username password =
     seq (operational (''Attempting DVWA login as '' @ username) ''INFO'')
      (except_RequestException (login_try username password)
         (\<lambda>e. seq (operational (''Login request failed: '' @ e) ''ERROR'') (ret False)))"

definition is_word_char :: "char \<Rightarrow> bool" where
  \<comment> \<open>\<open>\w\<close> on ASCII: letters, digits and the underscore\<close>
  "is_word_char c =
     (let n = (of_char c :: nat) in
      (48 \<le> n \<and> n \<le> 57) \<or> (65 \<le> n \<and> n \<le> 90) \<or> (97 \<le> n \<and> n \<le> 122) \<or> n = 95)"

fun search_level :: "string \<Rightarrow> string option" where
  \<comment> \<open>\<open>re.search(r'Security Level is currently: (\w+)', text, re.IGNORECASE)\<close>, group 1
      of the leftmost match\<close>
  "search_level [] = None"
| "search_level (c # cs) =
     (let lit = ''security level is currently: '';
          after = drop (length lit) (c # cs);
          word = takeWhile is_word_char after
      in if py_lower (take (length lit) (c # cs)) = lit \<and> word \<noteq> []
         then Some word else search_level cs)"

definition is_version_char :: "char \<Rightarrow> bool" where
  \<comment> \<open>\<open>[\d.]\<close> on ASCII\<close>
  "is_version_char c = (is_digit c \<or> c = CHR ''.'')"

fun search_version :: "string \<Rightarrow> string option" where
  \<comment> \<open>\<open>re.search(r'v([\d.]+)', text)\<close>, group 1 of the leftmost match\<close>
  "search_version [] = None"
| "search_version (c # cs) =
     (if c = CHR ''v'' \<and> takeWhile is_version_char cs \<noteq> []
      then Some (takeWhile is_version_char cs) else search_version cs)"

definition detected :: "string \<Rightarrow> string option action" where
  \<comment> \<open>the three lines shared by both detection branches\<close>
  "detected level =
     seq (modify (\<lambda>s. s\<lparr>security_level := Some level\<rparr>))
    (seq (operational (''Detected security level: '' @ level) ''INFO'')
         (ret (Some level)))"

definition detect_try :: "string option action" where
  \<comment> \<open>the \<open>try\<close> block of \<open>detect_security_level\<close>\<close>
  "detect_try =
     and_then (gets auth_base_url) (\<lambda>base.
     and_then (session_get (base @ ''/security.php'')) (\<lambda>response.
       if status_code response \<noteq> 200
       then seq (operational (''Failed to fetch security page: '' @ str_int (status_code response))
                   ''ERROR'')
                (ret None)
       else
         and_then (gets (\<lambda>s. soup_selected_option s (resp_text response))) (\<lambda>selected.
         case selected of
           Some v \<Rightarrow> detected (py_lower (case v of None \<Rightarrow> [] | Some x \<Rightarrow> x))
         | None \<Rightarrow>
             (case search_level (resp_text response) of
                Some w \<Rightarrow> detected (py_lower w)
              | None \<Rightarrow>
                  seq (operational ''Could not determine security level'' ''WARNING'')
                      (ret None)))))"

definition detect_security_level :: "string option action" where
  "detect_security_level =
     and_then (gets logged_in) (\<lambda>authenticated.
     if \<not> authenticated
     then seq (operational ''Cannot detect security level - not logged in'' ''WARNING'')
              (ret None)
     else except_Exception detect_try
            (\<lambda>e. seq (operational (''Error detecting security level: '' @ e) ''ERROR'')
                      (ret None)))"

definition set_try :: "string \<Rightarrow> bool action" where
  \<comment> \<open>the \<open>try\<close> block of \<open>set_security_level\<close>\<close>
  "set_try level =
     and_then (gets auth_base_url) (\<lambda>base.
     let security_url = base @ ''/security.php'' in
     and_then (session_get security_url) (\<lambda>response.
     and_then (gets (\<lambda>s. extract_csrf_token s (resp_text response))) (\<lambda>csrf_token.
     let data = with_token [(''security'', level), (''seclev_submit'', ''Submit'')] csrf_token in
     seq (operational (''Setting security level to: '' @ level) ''INFO'')
    (and_then (session_post security_url data) (\<lambda>response.
       if status_code response = 200
       then seq (modify (\<lambda>s. s\<lparr>security_level := Some level\<rparr>))
           (seq (operational ''Security level updated'' ''INFO'')
           (seq (educational (''DVWA security level set to: '' @ level))
                (ret True)))
       else seq (operational (''Failed to set security level: '' @ str_int (status_code response))
                   ''ERROR'')
                (ret False))))))"

definition set_security_level :: "string \<Rightarrow> bool action" where
  "set_security_level level0 =
     and_then (gets logged_in) (\<lambda>authenticated.
     if \<not> authenticated
     then seq (operational ''Cannot set security level - not logged in'' ''WARNING'') (ret False)
     else
       let level = py_lower level0 in
       if level \<notin> set [''low'', ''medium'', ''high'', ''impossible'']
       then seq (operational (''Invalid security level: '' @ level) ''ERROR'') (ret False)
       else except_Exception (set_try level)
              (\<lambda>e. seq (operational (''Error setting security level: '' @ e) ''ERROR'')
                        (ret False)))"

definition get_csrf_token :: "string \<Rightarrow> string option action" where
  "get_csrf_token u =
     except_Exception
       (and_then (session_get u) (\<lambda>response.
          if status_code response = 200
          then gets (\<lambda>s. extract_csrf_token s (resp_text response))
          else ret None))
       (\<lambda>e. seq (operational (''Error fetching CSRF token: '' @ e) ''ERROR'') (ret None))"

definition is_authenticated :: "state \<Rightarrow> bool" where
  "is_authenticated s = logged_in s"

definition verify_dvwa_presence :: "(bool \<times> string) action" where
  "verify_dvwa_presence =
     except_RequestException
       (seq (operational ''Verifying DVWA presence'' ''INFO'')
       (and_then (gets auth_base_url) (\<lambda>base.
        and_then (session_get (base @ ''/login.php'')) (\<lambda>response.
          if status_code response \<noteq> 200
          then ret (False, ''HTTP '' @ str_int (status_code response))
          else if py_in ''Damn Vulnerable Web Application'' (resp_text response)
                  \<or> py_in ''DVWA'' (resp_text response)
          then (let version = (case search_version (resp_text response) of
                                 Some v \<Rightarrow> v | None \<Rightarrow> ''unknown'') in
                seq (operational (''DVWA detected (version: '' @ version @ '')'') ''INFO'')
                    (ret (True, version)))
          else ret (False, ''DVWA markers not found in response'')))))
       (\<lambda>e. ret (False, e))"

section \<open>Scenario modules (modules/reflected.py, stored.py, dom\_based.py)\<close>

text \<open>
  Each \<open>run_interactive\<close> is a straight sequence with early returns. The steps before the
  payload loop are collected in a prelude whose value says whether the run goes on; an
  early \<open>return False\<close> of the source is the value \<open>False\<close> of the prelude. The
  \<open>for ... break\<close> loop over the payload list is a recursive function. Helper methods
  that only format text for the logger (\<open>_log_curl_examples\<close>, \<open>_log_http_evidence\<close>,
  \<open>_log_injection_breakdown\<close>) are one logger call each.
\<close>

definition explain :: "string \<Rightarrow> unit action" where
  \<comment> \<open>\<open>self.logger.educational(self.explanations.KEY)\<close>\<close>
  "explain key = and_then (gets (\<lambda>s. explanations s key)) educational"

definition log_curl_examples :: "http_method \<Rightarrow> string \<Rightarrow> unit action" where
  "log_curl_examples m u = educational (''Reproduce this request via curl: '' @ method_name m @ '' '' @ u)"

definition log_http_evidence :: "string \<Rightarrow> unit action" where
  "log_http_evidence note = educational (''HTTP evidence ('' @ note @ '')'')"

subsection \<open>Reflected XSS\<close>

definition xss_reflected_path :: string where
  "xss_reflected_path = ''vulnerabilities/xss_r/''"

definition reflected_payloads :: "(string \<times> string) list" where
  "reflected_payloads =
     [ (''<script>alert(1)</script>'', ''PAYLOAD_BASIC_ALERT''),
       (''<img src=x onerror=alert(1)>'', ''PAYLOAD_IMG_ONERROR''),
       (''<svg/onload=alert(1)>'', ''PAYLOAD_SVG_ONLOAD'') ]"

definition reflected_attempt_payload ::
    "TargetConfig \<Rightarrow> bool \<Rightarrow> nat \<Rightarrow> string \<times> string \<Rightarrow> bool action" where
  \<comment> \<open>\<open>ReflectedXSSModule._attempt_payload\<close>\<close>
  "reflected_attempt_payload cfg interactive attempt_num entry =
     (let payload = fst entry; explanation_key = snd entry in
      seq (logger (Step (3 + attempt_num) (''Attempting Payload '' @ str_nat attempt_num)))
     (and_then (gets (\<lambda>s. explanations s explanation_key)) (\<lambda>explanation.
      seq (logger (Payload payload explanation))
     (and_then (approved interactive ''Execute this payload?'') (\<lambda>go.
      if \<not> go then seq (educational ''Payload skipped by user.'') (ret False)
      else
        (let u = get_dvwa_url cfg xss_reflected_path; params = [(''name'', payload)] in
         seq (log_curl_examples GET u)
        (and_then (http_get u (Some params)) (\<lambda>response.
         if \<not> truthy response
         then seq (logger (ExplainFailure
                     (''HTTP request failed for payload '' @ str_nat attempt_num)
                     (Some ''Check DVWA connectivity'')))
                  (ret False)
         else
           and_then (check_xss_reflection response payload) (\<lambda>reflected.
           if reflected
           then seq (logger (ExplainSuccess
                       (''Payload '' @ str_nat attempt_num @ '' succeeded!'')))
               (seq (log_http_evidence ''reflected payload inside HTML body'')
                    (ret True))
           else seq (logger (ExplainFailure
                       (''Payload '' @ str_nat attempt_num @ '' was blocked or encoded'')
                       (if attempt_num < length reflected_payloads
                        then Some ''Try a different payload that may bypass the filter''
                        else None)))
               (seq (log_http_evidence ''encoded or blocked response sample'')
                    (ret False)))))))))))"

fun reflected_attempts :: "TargetConfig \<Rightarrow> bool \<Rightarrow> nat \<Rightarrow> (string \<times> string) list \<Rightarrow> bool action" where
  \<comment> \<open>\<open>for i, (payload, key) in enumerate(self.payloads, start=1): if attempt: success = True; break\<close>\<close>
  "reflected_attempts cfg interactive i [] s = (Inr False, s)"
| "reflected_attempts cfg interactive i (entry # rest) s =
     (case reflected_attempt_payload cfg interactive i entry s of
        (Inl e, s') \<Rightarrow> (Inl e, s')
      | (Inr True, s') \<Rightarrow> (Inr True, s')
      | (Inr False, s') \<Rightarrow> reflected_attempts cfg interactive (Suc i) rest s')"

definition reflected_prelude :: "TargetConfig \<Rightarrow> bool \<Rightarrow> bool action" where
  \<comment> \<open>steps 1 to 3 of \<open>ReflectedXSSModule.run_interactive\<close>\<close>
  "reflected_prelude cfg interactive =
     seq (logger (Educational [] (Some ''REFLECTED XSS MODULE'')))
    (seq (explain ''REFLECTED_XSS_INTRO'')
    (seq (logger (Step 1 ''Understanding the Target''))
    (and_then (approved interactive ''Proceed to examine the vulnerable page?'') (\<lambda>go.
     if \<not> go then seq (educational ''Module stopped by user.'') (ret False)
     else
       seq (logger (Step 2 ''Testing Normal Behavior''))
      (let u = get_dvwa_url cfg xss_reflected_path; test_input = ''TestUser123'' in
       and_then (http_get u (Some [(''name'', test_input)])) (\<lambda>response.
       case response of
         None \<Rightarrow>
           seq (logger (ExplainFailure ''Failed to reach target page''
                  (Some ''Verify DVWA is running and accessible'')))
               (ret False)
       | Some r \<Rightarrow>
           if \<not> response_ok r
           then seq (logger (ExplainFailure ''Failed to reach target page''
                       (Some ''Verify DVWA is running and accessible'')))
                    (ret False)
           else
             seq (if py_in test_input (resp_text r)
                  then seq (educational ''Input TestUser123 was reflected in the response'')
                           (educational ''The server includes our input directly in the HTML'')
                  else educational ''Expected input TestUser123 not found in response'')
            (seq (and_then (gets reflected_details_logged) (\<lambda>already.
                  if \<not> already
                  then seq (educational (''Injection breakdown: Target endpoint: '' @ u))
                           (modify (\<lambda>s. s\<lparr>reflected_details_logged := True\<rparr>))
                  else skip))
            (and_then (approved interactive ''Proceed to attempt XSS payloads?'') (\<lambda>go.
             if \<not> go then seq (educational ''Module stopped by user.'') (ret False)
             else seq (explain ''REFLECTED_XSS_IMPACT'') (ret True))))))))))"

definition reflected_run_interactive :: "TargetConfig \<Rightarrow> bool \<Rightarrow> bool action" where
  "reflected_run_interactive cfg interactive =
     and_then (reflected_prelude cfg interactive) (\<lambda>go.
     if \<not> go then ret False
     else
       and_then (reflected_attempts cfg interactive 1 reflected_payloads) (\<lambda>success.
       seq (if success
            then seq (educational (replicate 70 CHR ''=''))
                     (explain ''REFLECTED_XSS_PREVENTION'')
            else skip)
           (ret success)))"

subsection \<open>Stored XSS\<close>

definition xss_stored_path :: string where
  "xss_stored_path = ''vulnerabilities/xss_s/''"

definition stored_payloads :: "(string \<times> string) list" where
  "stored_payloads =
     [ (''<script>alert('' @ [CHR 0x27] @ ''Stored XSS'' @ [CHR 0x27] @ '')</script>'',
          ''Basic script injection''),
       (''<img src=x onerror=alert('' @ [CHR 0x27] @ ''XSS'' @ [CHR 0x27] @ '')>'',
          ''Image error handler''),
       (''<svg/onload=alert('' @ [CHR 0x27] @ ''XSS'' @ [CHR 0x27] @ '')>'',
          ''SVG onload event'') ]"

definition annotated_payload :: "string \<Rightarrow> string \<Rightarrow> string" where
  \<comment> \<open>\<open>f"{payload}\n<!-- UA: {ua_string} -->"\<close>\<close>
  "annotated_payload payload ua_string = payload @ [CHR 0x0A] @ ''<!-- UA: '' @ ua_string @ '' -->''"

definition stored_form_data :: "string \<Rightarrow> string \<Rightarrow> string option \<Rightarrow> (string \<times> string) list" where
  "stored_form_data payload ua_string csrf_token =
     with_token
       [ (''txtName'', ''XSS Test User''),
         (''mtxMessage'', annotated_payload payload ua_string),
         (''btnSign'', ''Sign Guestbook'') ]
       csrf_token"

definition stored_check :: "nat \<Rightarrow> string \<Rightarrow> string \<Rightarrow> bool action" where
  \<comment> \<open>the final \<open>if payload in response.text: ... else: ...\<close> of
      \<open>_attempt_stored_payload\<close>, on the body of the re-fetched page\<close>
  "stored_check attempt_num payload body =
     (if py_in payload body
      then seq (logger (ExplainSuccess
                  (''Stored XSS payload '' @ str_nat attempt_num @ '' succeeded!'')))
          (seq (log_http_evidence ''stored entry rendered in body'')
               (ret True))
      else
        (let encoded_check = py_replace CHR ''>'' ''&gt;'' (py_replace CHR ''<'' ''&lt;'' payload);
             suggestion = (\<lambda>text. if attempt_num < length stored_payloads then Some text else None)
         in if py_in encoded_check body
            then seq (logger (ExplainFailure
                        (''Payload '' @ str_nat attempt_num @ '' was stored but ENCODED'')
                        (suggestion ''Try a different payload or lower security level'')))
                (seq (log_http_evidence ''payload encoded before rendering'')
                     (ret False))
            else seq (logger (ExplainFailure
                        (''Payload '' @ str_nat attempt_num @ '' may have been filtered'')
                        (suggestion ''Try alternative payload'')))
                (seq (log_http_evidence ''payload missing from rendered output'')
                     (ret False))))"

definition stored_retrieve :: "string \<Rightarrow> nat \<Rightarrow> string \<Rightarrow> bool action" where
  \<comment> \<open>step B of \<open>_attempt_stored_payload\<close>: fetch the page again and look for the payload\<close>
  "stored_retrieve u attempt_num payload =
     seq (educational ''Retrieving guestbook to check if payload persists...'')
    (and_then (http_get u None) (\<lambda>response.
     seq (log_curl_examples GET u)
    (case response of
       None \<Rightarrow>
         seq (logger (ExplainFailure ''Failed to retrieve guestbook after submission''
                (Some ''Try accessing the page manually'')))
             (ret False)
     | Some r \<Rightarrow>
         if \<not> response_ok r
         then seq (logger (ExplainFailure ''Failed to retrieve guestbook after submission''
                     (Some ''Try accessing the page manually'')))
                  (ret False)
         else stored_check attempt_num payload (resp_text r))))"

definition stored_submit :: "string \<Rightarrow> nat \<Rightarrow> string \<Rightarrow> bool action" where
  \<comment> \<open>step A of \<open>_attempt_stored_payload\<close>: fetch a token, post the form; its value
      says whether step B follows\<close>
  "stored_submit u attempt_num payload =
     seq (educational ''Submitting payload to guestbook...'')
    (and_then (get_csrf_token u) (\<lambda>csrf_token.
     and_then (gets get_user_agent) (\<lambda>ua_string.
     let form_data = stored_form_data payload ua_string csrf_token in
     seq (educational (''User-Agent recorded with this entry: '' @ ua_string))
    (seq (log_curl_examples POST u)
    (and_then (http_post u (Some form_data)) (\<lambda>response.
     if \<not> truthy response
     then seq (logger (ExplainFailure
                 (''Failed to submit payload '' @ str_nat attempt_num)
                 (Some ''Check connection to DVWA'')))
              (ret False)
     else seq (educational ''Payload submitted successfully'') (ret True)))))))"

definition stored_attempt_payload ::
    "TargetConfig \<Rightarrow> bool \<Rightarrow> nat \<Rightarrow> string \<times> string \<Rightarrow> bool action" where
  \<comment> \<open>\<open>StoredXSSModule._attempt_stored_payload\<close>\<close>
  "stored_attempt_payload cfg interactive attempt_num entry =
     (let payload = fst entry; description = snd entry in
      seq (logger (Step (3 + attempt_num) (''Stored XSS Attempt '' @ str_nat attempt_num)))
     (seq (logger (Payload payload description))
     (and_then (approved interactive ''Store this payload in the guestbook?'') (\<lambda>go.
      if \<not> go then seq (educational ''Payload skipped by user.'') (ret False)
      else
        (let u = get_dvwa_url cfg xss_stored_path in
         and_then (stored_submit u attempt_num payload) (\<lambda>submitted.
         if \<not> submitted then ret False
         else stored_retrieve u attempt_num payload))))))"

fun stored_attempts :: "TargetConfig \<Rightarrow> bool \<Rightarrow> nat \<Rightarrow> (string \<times> string) list \<Rightarrow> bool action" where
  "stored_attempts cfg interactive i [] s = (Inr False, s)"
| "stored_attempts cfg interactive i (entry # rest) s =
     (case stored_attempt_payload cfg interactive i entry s of
        (Inl e, s') \<Rightarrow> (Inl e, s')
      | (Inr True, s') \<Rightarrow> (Inr True, s')
      | (Inr False, s') \<Rightarrow> stored_attempts cfg interactive (Suc i) rest s')"

definition stored_prelude :: "TargetConfig \<Rightarrow> bool \<Rightarrow> bool action" where
  \<comment> \<open>steps 1 to 3 of \<open>StoredXSSModule.run_interactive\<close>\<close>
  "stored_prelude cfg interactive =
     seq (logger (Educational [] (Some ''STORED XSS MODULE'')))
    (seq (explain ''STORED_XSS_INTRO'')
    (seq (logger (Step 1 ''Understanding Stored XSS''))
    (and_then (approved interactive ''Proceed to examine the guestbook?'') (\<lambda>go.
     if \<not> go then seq (educational ''Module stopped by user.'') (ret False)
     else
       seq (logger (Step 2 ''Viewing Current Guestbook Entries''))
      (let u = get_dvwa_url cfg xss_stored_path in
       and_then (http_get u None) (\<lambda>response.
       if \<not> truthy response
       then seq (logger (ExplainFailure ''Failed to reach guestbook page''
                   (Some ''Verify DVWA is running and you are authenticated'')))
                (ret False)
       else
         seq (educational ''Successfully accessed guestbook page'')
        (seq (and_then (gets stored_details_logged) (\<lambda>already.
              if \<not> already
              then seq (educational (''Injection breakdown: Target endpoint: '' @ u))
                       (modify (\<lambda>s. s\<lparr>stored_details_logged := True\<rparr>))
              else skip))
        (seq (explain ''STORED_XSS_IMPACT'')
        (and_then (approved interactive ''Proceed to attempt stored XSS injection?'') (\<lambda>go.
         if \<not> go then seq (educational ''Module stopped by user.'') (ret False)
         else ret True))))))))))"

definition stored_run_interactive :: "TargetConfig \<Rightarrow> bool \<Rightarrow> bool action" where
  "stored_run_interactive cfg interactive =
     and_then (stored_prelude cfg interactive) (\<lambda>go.
     if \<not> go then ret False
     else
       and_then (stored_attempts cfg interactive 1 stored_payloads) (\<lambda>success.
       seq (if success
            then seq (educational (replicate 70 CHR ''=''))
                     (explain ''STORED_XSS_PREVENTION'')
            else skip)
           (ret success)))"

subsection \<open>DOM-based XSS\<close>

definition xss_dom_path :: string where
  "xss_dom_path = ''vulnerabilities/xss_d/''"

definition dom_exploits :: "string \<Rightarrow> (string \<times> string \<times> string) list" where
  \<comment> \<open>payload, URL and explanation of each entry of \<open>exploits\<close>\<close>
  "dom_exploits base =
     (let q = [CHR 0x27] in
      [ (''<script>alert('' @ q @ ''DOM XSS'' @ q @ '')</script>'',
         base @ ''?default=<script>alert('' @ q @ ''DOM XSS'' @ q @ '')</script>'',
         ''Basic script injection via URL parameter''),
        (''English</option><script>alert(1)</script>'',
         base @ ''?default=English</option><script>alert(1)</script>'',
         ''Breaking out of the <option> tag context''),
        (''English</option><option value='' @ q @ ''tlh'' @ q @ '' selected>Klingon (tlh)</option>'',
         base @ ''?default=English</option><option value='' @ q @ ''tlh'' @ q
              @ '' selected>Klingon (tlh)</option>'',
         ''Injects a brand-new Klingon option into the dropdown to prove DOM control''),
        (''English</option><img src=x onerror=alert(document.cookie)>'',
         base @ ''?default=English</option><img src=x onerror=alert(document.cookie)>'',
         ''Using img onerror to steal cookies'') ])"

fun log_exploits :: "nat \<Rightarrow> (string \<times> string \<times> string) list \<Rightarrow> unit action" where
  \<comment> \<open>the \<open>for i, exploit in enumerate(exploits, 1)\<close> loop: five logger calls each\<close>
  "log_exploits i [] = skip"
| "log_exploits i ((payload, exploit_url, explanation) # rest) =
     seq (educational (''[Exploit '' @ str_nat i @ '']''))
    (seq (educational (''Payload: '' @ payload))
    (seq (educational (''Explanation: '' @ explanation))
    (seq (educational (''Full URL: '' @ exploit_url))
    (seq (operational (''DOM XSS exploit URL '' @ str_nat i @ '': '' @ exploit_url) ''INFO'')
         (log_exploits (Suc i) rest)))))"

definition demonstrate_exploit_urls :: "TargetConfig \<Rightarrow> unit action" where
  "demonstrate_exploit_urls cfg =
     seq (logger (Step 4 ''Crafting DOM XSS Exploit URLs''))
         (log_exploits 1 (dom_exploits (get_dvwa_url cfg xss_dom_path)))"

definition explain_vulnerable_code :: "unit action" where
  "explain_vulnerable_code =
     seq (logger (Step 3 ''Identifying Vulnerable Code Pattern''))
    (seq (educational ''Vulnerable code example (typical DVWA pattern)'')
         (educational ''What makes this vulnerable?''))"

definition explain_manual_testing :: "unit action" where
  "explain_manual_testing =
     seq (logger (Step 5 ''Manual Testing Instructions''))
         (educational ''Manual walk-through (no Selenium or headless browser required)'')"

definition dom_run_interactive :: "TargetConfig \<Rightarrow> bool \<Rightarrow> bool action" where
  \<comment> \<open>\<open>DOMXSSModule.run_interactive\<close>\<close>
  "dom_run_interactive cfg interactive =
     seq (logger (Educational [] (Some ''DOM-BASED XSS MODULE (Demonstration)'')))
    (seq (explain ''DOM_XSS_INTRO'')
    (seq (logger (Step 1 ''Understanding DOM XSS''))
    (seq (explain ''DOM_XSS_SOURCES_SINKS'')
    (and_then (approved interactive ''Continue with DOM XSS demonstration?'') (\<lambda>go.
     if \<not> go then seq (educational ''Module stopped by user.'') (ret False)
     else
       seq (logger (Step 2 ''Analyzing the DOM XSS Page''))
      (and_then (http_get (get_dvwa_url cfg xss_dom_path) None) (\<lambda>response.
       if \<not> truthy response
       then seq (logger (ExplainFailure ''Failed to fetch DOM XSS page''
                   (Some ''Verify DVWA is running and accessible'')))
                (ret False)
       else
         seq (educational ''Successfully fetched DOM XSS page'')
        (seq explain_vulnerable_code
        (and_then (approved interactive ''Proceed to craft exploit URLs?'') (\<lambda>go.
         if \<not> go then seq (educational ''Module stopped by user.'') (ret False)
         else
           seq (demonstrate_exploit_urls cfg)
          (seq explain_manual_testing
          (seq (educational (replicate 70 CHR ''=''))
          (seq (explain ''DOM_XSS_PREVENTION'')
               (ret True))))))))))))))"

section \<open>Auxiliary notions used in the statements\<close>

text \<open>The state just before the request goes out: the request is logged and recorded.\<close>

definition before_send :: "string \<Rightarrow> Request \<Rightarrow> state \<Rightarrow> state" where
  "before_send prepared_url req s =
     snd ((\<lambda>s. if has_recorder s then recorder_record req s else skip s)
            (s\<lparr>log := log s @ [HttpRequest (req_method req) prepared_url
               (if req_method req = GET then req_params req else req_data req)]\<rparr>))"


text \<open>Test doubles for the network.\<close>

definition refused :: "Request list \<Rightarrow> Request \<Rightarrow> exn + Response" where
  "refused history req = Inl (RequestException ''Connection refused'')"

definition page :: "int \<Rightarrow> string \<Rightarrow> string \<Rightarrow> Response" where
  "page status body u = \<lparr>status_code = status, resp_text = body, resp_url = u\<rparr>"

definition static_site :: "int \<Rightarrow> string \<Rightarrow> Request list \<Rightarrow> Request \<Rightarrow> exn + Response" where
  \<comment> \<open>answers every request with the same status and body\<close>
  "static_site status body history req = Inr (page status body (req_url req))"

text \<open>
  \<open>wp m Q s\<close>: running \<open>m\<close> from \<open>s\<close> ends with a result and a state that satisfy
  \<open>Q\<close>. Every action is a total function, so this is a statement about the one run.
\<close>

definition wp :: "'a action \<Rightarrow> ((exn + 'a) \<Rightarrow> state \<Rightarrow> bool) \<Rightarrow> state \<Rightarrow> bool" where
  "wp m Q s = Q (fst (m s)) (snd (m s))"

text \<open>The two ways a run leaves traces: a call on the logger, a request on the wire.\<close>

definition logged :: "log_call \<Rightarrow> state \<Rightarrow> state" where
  "logged c s = s\<lparr>log := log s @ [c]\<rparr>"

definition sent :: "Request \<Rightarrow> state \<Rightarrow> state" where
  "sent req s = s\<lparr>wire := wire s @ [req]\<rparr>"

text \<open>The authenticator as a state machine: its operations, one step, and a run.\<close>

datatype auth_op =
    Login string string
  | DetectSecurityLevel
  | SetSecurityLevel string
  | GetCsrfToken string
  | VerifyDvwaPresence

definition auth_step :: "auth_op \<Rightarrow> state \<Rightarrow> state" where
  "auth_step operation s =
     (case operation of
        Login username password \<Rightarrow> snd (login username password s)
      | DetectSecurityLevel \<Rightarrow> snd (detect_security_level s)
      | SetSecurityLevel level \<Rightarrow> snd (set_security_level level s)
      | GetCsrfToken u \<Rightarrow> snd (get_csrf_token u s)
      | VerifyDvwaPresence \<Rightarrow> snd (verify_dvwa_presence s))"

fun auth_run :: "auth_op list \<Rightarrow> state \<Rightarrow> state" where
  "auth_run [] s = s"
| "auth_run (operation # rest) s = auth_run rest (auth_step operation s)"

text \<open>
  The response to the credentials POST of \<open>login\<close>, when the run gets that far: the
  login page was fetched with status 200 and the POST was answered.
\<close>

definition login_page_request :: "state \<Rightarrow> Request" where
  "login_page_request s =
     \<lparr>req_method = GET, req_url = auth_base_url s @ ''/login.php'',
      req_params = None, req_data = None\<rparr>"

definition credentials_request :: "string \<Rightarrow> string \<Rightarrow> state \<Rightarrow> string \<Rightarrow> Request" where
  "credentials_request username password s html =
     \<lparr>req_method = POST, req_url = auth_base_url s @ ''/login.php'', req_params = None,
      req_data = Some (with_token
         [(''username'', username), (''password'', password), (''Login'', ''Login'')]
         (extract_csrf_token s html))\<rparr>"

definition post_login_response :: "string \<Rightarrow> string \<Rightarrow> state \<Rightarrow> Response option" where
  "post_login_response username password s =
     (case prepare s (login_page_request s) of
        Inl e \<Rightarrow> None
      | Inr pu \<Rightarrow>
         (case transport s (wire s) (login_page_request s) of
            Inl e \<Rightarrow> None
          | Inr r1 \<Rightarrow>
              if status_code r1 \<noteq> 200 then None
              else
                (let post = credentials_request username password s (resp_text r1) in
                 case prepare s post of
                   Inl e \<Rightarrow> None
                 | Inr pu2 \<Rightarrow>
                     (case transport s (wire s @ [login_page_request s]) post of
                        Inl e \<Rightarrow> None
                      | Inr r2 \<Rightarrow> Some r2))))"

definition dvwa_login :: "bool \<Rightarrow> Request list \<Rightarrow> Request \<Rightarrow> exn + Response" where
  \<comment> \<open>a login page that accepts or rejects every credential; a rejected login lands on
      the login page again\<close>
  "dvwa_login accept history req =
     (case req_method req of
        GET \<Rightarrow> Inr (page 200 ''<h1>DVWA</h1>'' (req_url req))
      | POST \<Rightarrow>
          Inr (page 200 ''<h1>DVWA</h1>''
                 (if accept then ''http://localhost/index.php''
                  else ''http://localhost/login.php'')))"

section \<open>Properties of the target configuration\<close>

lemma str_nat_one_digit: "n < 10 \<Longrightarrow> str_nat n = [digit_char n]"
  by (simp add: str_nat.simps [of n])

lemma str_nat_two_digits:
  "10 \<le> n \<Longrightarrow> n < 100 \<Longrightarrow> str_nat n = [digit_char (n div 10), digit_char (n mod 10)]"
  by (simp add: str_nat.simps [of n] str_nat_one_digit)

lemma str_nat_443: "str_nat 443 = ''443''"
  by (simp add: str_nat.simps [of 443] str_nat_two_digits digit_char_def)

lemma str_nat_8080: "str_nat 8080 = ''8080''"
  by (simp add: str_nat.simps [of 8080] str_nat.simps [of 808] str_nat_two_digits digit_char_def)

lemma second_octets_list:
  "second_octets = [16, 17, 18, 19, 20, 21, 22, 23, 24, 25, 26, 27, 28, 29, 30, 31]"
  unfolding second_octets_def by (simp add: upt_rec)

lemma allowed_hosts_lower: "map py_lower ALLOWED_HOSTS = ALLOWED_HOSTS"
  by code_simp

lemma lower_in_allowed_iff:
  "py_lower h \<in> set ALLOWED_HOSTS \<longleftrightarrow> list_ex (ci_equals h) ALLOWED_HOSTS"
proof -
  have "list_ex (ci_equals h) ALLOWED_HOSTS \<longleftrightarrow> py_lower h \<in> set (map py_lower ALLOWED_HOSTS)"
    by (auto simp: list_ex_iff ci_equals_def)
  then show ?thesis by (simp only: allowed_hosts_lower)
qed

lemma range_6_9: "((54::nat) \<le> of_char x \<and> (of_char x :: nat) \<le> 57) \<longleftrightarrow> x \<in> set ''6789''"
proof -
  have "x \<in> set ''6789'' \<longleftrightarrow> (of_char x :: nat) \<in> of_char ` set ''6789''"
    by (simp only: inj_image_mem_iff [OF inj_of_char])
  also have "(of_char ` set ''6789'' :: nat set) = {54, 55, 56, 57}" by simp
  finally show ?thesis by auto
qed

lemma nat_48_57:
  "((48::nat) \<le> n \<and> n \<le> 57) \<longleftrightarrow> n \<in> {48, 49, 50, 51, 52, 53, 54, 55, 56, 57}"
  by (simp only: insert_iff empty_iff) presburger

lemma range_0_9: "((48::nat) \<le> of_char x \<and> (of_char x :: nat) \<le> 57) \<longleftrightarrow> x \<in> set ''0123456789''"
proof -
  have "x \<in> set ''0123456789'' \<longleftrightarrow> (of_char x :: nat) \<in> of_char ` set ''0123456789''"
    by (simp only: inj_image_mem_iff [OF inj_of_char])
  also have "(of_char ` set ''0123456789'' :: nat set) = {48, 49, 50, 51, 52, 53, 54, 55, 56, 57}"
    by simp
  finally show ?thesis by (simp only: nat_48_57)
qed

lemma range_0_1: "((48::nat) \<le> of_char x \<and> (of_char x :: nat) \<le> 49) \<longleftrightarrow> x \<in> set ''01''"
proof -
  have "x \<in> set ''01'' \<longleftrightarrow> (of_char x :: nat) \<in> of_char ` set ''01''"
    by (simp only: inj_image_mem_iff [OF inj_of_char])
  also have "(of_char ` set ''01'' :: nat set) = {48, 49}" by simp
  finally show ?thesis by auto
qed

lemma second_octet_strings:
  "map str_nat second_octets =
     [''16'', ''17'', ''18'', ''19'', ''20'', ''21'', ''22'', ''23'',
      ''24'', ''25'', ''26'', ''27'', ''28'', ''29'', ''30'', ''31'']"
  by (simp add: second_octets_list str_nat_two_digits digit_char_def)

lemma digit_pair:
  "rx_run (Seq (Str [d]) (Range lo hi)) (n, t) =
     (case t of
        a # b # rest \<Rightarrow>
          if a = d \<and> (of_char lo :: nat) \<le> of_char b \<and> (of_char b :: nat) \<le> of_char hi
          then [(Suc (Suc n), rest)] else []
      | _ \<Rightarrow> [])"
  by (auto split: list.splits)

lemma split_172:
  "list_ex (\<lambda>k. prefix (''172.'' @ str_nat k @ ''.'') h) second_octets \<longleftrightarrow>
   prefix ''172.'' h \<and> list_ex (\<lambda>w. prefix (w @ ''.'') (drop 4 h)) (map str_nat second_octets)"
proof (cases "prefix ''172.'' h")
  case True
  then obtain t where h: "h = ''172.'' @ t" by (auto simp: prefix_def)
  show ?thesis unfolding h by (simp add: list_ex_iff)
next
  case False
  then have "\<not> prefix (''172.'' @ w) h" for w
    using append_prefixD by blast
  with False show ?thesis by (simp add: list_ex_iff)
qed

lemma then_dot:
  "concat (map (rx_run (Str ''.'')) ps) \<noteq> [] \<longleftrightarrow> list_ex (\<lambda>(n, s). prefix ''.'' s) ps"
  by (induction ps) auto

lemma octet_tail:
  "rx_run (Seq (Alt (Seq (Str ''1'') (Range CHR ''6'' CHR ''9''))
              (Alt (Seq (Str ''2'') (Range CHR ''0'' CHR ''9''))
                   (Seq (Str ''3'') (Range CHR ''0'' CHR ''1''))))
              (Str ''.'')) (n, t) \<noteq> []
   \<longleftrightarrow> list_ex (\<lambda>w. prefix (w @ ''.'') t) (map str_nat second_octets)"
proof (cases t)
  case Nil
  then show ?thesis by (simp add: second_octet_strings)
next
  case (Cons a t1)
  show ?thesis
  proof (cases t1)
    case Nil
    with Cons show ?thesis by (simp add: second_octet_strings)
  next
    case (Cons b rest)
    have "rx_run (Seq (Alt (Seq (Str ''1'') (Range CHR ''6'' CHR ''9''))
              (Alt (Seq (Str ''2'') (Range CHR ''0'' CHR ''9''))
                   (Seq (Str ''3'') (Range CHR ''0'' CHR ''1''))))
              (Str ''.'')) (n, t) \<noteq> [] \<longleftrightarrow>
       list_ex (\<lambda>(n, s). prefix ''.'' s)
         (rx_run (Seq (Str ''1'') (Range CHR ''6'' CHR ''9'')) (n, t) @
          rx_run (Seq (Str ''2'') (Range CHR ''0'' CHR ''9'')) (n, t) @
          rx_run (Seq (Str ''3'') (Range CHR ''0'' CHR ''1'')) (n, t))"
      by (simp only: rx_run.simps(4) [of "Alt _ _"] rx_run.simps(5) then_dot)
    also have "\<dots> \<longleftrightarrow>
        ((a = CHR ''1'' \<and> b \<in> set ''6789'' \<or> a = CHR ''2'' \<and> b \<in> set ''0123456789''
           \<or> a = CHR ''3'' \<and> b \<in> set ''01'') \<and> prefix ''.'' rest)"
      unfolding digit_pair \<open>t = a # t1\<close> \<open>t1 = b # rest\<close>
      by (simp add: range_6_9 range_0_9 range_0_1 del: set_simps)
    also have "\<dots> \<longleftrightarrow> list_ex (\<lambda>w. prefix (w @ ''.'') t) (map str_nat second_octets)"
    proof -
      let ?P = "\<lambda>w. prefix (w @ ''.'') (a # b # rest)"
      have g1: "list_ex ?P [''16'', ''17'', ''18'', ''19''] \<longleftrightarrow>
                  a = CHR ''1'' \<and> b \<in> set ''6789'' \<and> prefix ''.'' rest"
        by auto
      have g2: "list_ex ?P [''20'', ''21'', ''22'', ''23'', ''24'', ''25'', ''26'', ''27'', ''28'', ''29''] \<longleftrightarrow>
                  a = CHR ''2'' \<and> b \<in> set ''0123456789'' \<and> prefix ''.'' rest"
        by auto
      have g3: "list_ex ?P [''30'', ''31''] \<longleftrightarrow>
                  a = CHR ''3'' \<and> b \<in> set ''01'' \<and> prefix ''.'' rest"
        by auto
      have "map str_nat second_octets =
              [''16'', ''17'', ''18'', ''19''] @
              [''20'', ''21'', ''22'', ''23'', ''24'', ''25'', ''26'', ''27'', ''28'', ''29''] @
              [''30'', ''31'']"
        by (simp add: second_octet_strings)
      then have "list_ex ?P (map str_nat second_octets) \<longleftrightarrow>
              (a = CHR ''1'' \<and> b \<in> set ''6789'' \<and> prefix ''.'' rest) \<or>
              (a = CHR ''2'' \<and> b \<in> set ''0123456789'' \<and> prefix ''.'' rest) \<or>
              (a = CHR ''3'' \<and> b \<in> set ''01'' \<and> prefix ''.'' rest)"
        by (simp only: list_ex_append g1 g2 g3)
      then show ?thesis
        unfolding \<open>t = a # t1\<close> \<open>t1 = b # rest\<close> by blast
    qed
    finally show ?thesis .
  qed
qed

lemma anchored: "re_match (Seq Start r) h \<longleftrightarrow> rx_run r (0, h) \<noteq> []"
  by (simp add: re_match_def)

lemma str_only: "rx_run (Str lit) (n, s) \<noteq> [] \<longleftrightarrow> prefix lit s"
  by simp

lemma str_then:
  "rx_run (Seq (Str lit) r) (n, s) \<noteq> [] \<longleftrightarrow>
     prefix lit s \<and> rx_run r (n + length lit, drop (length lit) s) \<noteq> []"
  by simp

lemma is_private_ip_iff: "is_private_ip h \<longleftrightarrow> private_prefix h"
proof -
  have len: "length ''172.'' = 4" by simp
  show ?thesis
    unfolding is_private_ip_def private_patterns_def first_match.simps anchored str_then
      str_only octet_tail private_prefix_def split_172 len
    by simp
qed

lemma is_safe_target_iff_spec: "is_safe_target cfg \<longleftrightarrow> spec_is_safe cfg"
  by (simp add: is_safe_target_def spec_is_safe_def lower_in_allowed_iff is_private_ip_iff)

text \<open>
  Claim C1. \<open>is_safe_target\<close> is true exactly when the host equals one of localhost,
  127.0.0.1, ::1, 0.0.0.0 without regard to case, or begins with a private prefix
  (\<open>10.\<close>, \<open>172.16.\<close> to \<open>172.31.\<close>, \<open>192.168.\<close>), or the target is confirmed.
  The eight listed hosts are safe on a freshly built configuration, whatever the port and
  scheme; 8.8.8.8 is not safe before \<open>confirm_target\<close> and is safe after it.
\<close>

theorem is_safe_target_contract:
  "(is_safe_target cfg \<longleftrightarrow> spec_is_safe cfg)
   \<and> list_all (\<lambda>h. is_safe_target (init_TargetConfig h p s))
        [''localhost'', ''127.0.0.1'', ''::1'', ''0.0.0.0'',
         ''10.1.2.3'', ''172.16.0.5'', ''172.31.255.255'', ''192.168.1.1'']
   \<and> \<not> is_safe_target (init_TargetConfig ''8.8.8.8'' p s)
   \<and> is_safe_target (confirm_target (init_TargetConfig ''8.8.8.8'' p s))"
proof -
  have listed: "list_all (\<lambda>h. is_safe_target (init_TargetConfig h p s))
        [''localhost'', ''127.0.0.1'', ''::1'', ''0.0.0.0'',
         ''10.1.2.3'', ''172.16.0.5'', ''172.31.255.255'', ''192.168.1.1'']"
    by (simp add: is_safe_target_def init_TargetConfig_def is_private_ip_def
        private_patterns_def re_match_def py_lower_def lower_char_def ALLOWED_HOSTS_def)
  have before: "\<not> is_safe_target (init_TargetConfig ''8.8.8.8'' p s)"
    by (simp add: is_safe_target_def init_TargetConfig_def is_private_ip_def
        private_patterns_def re_match_def py_lower_def lower_char_def ALLOWED_HOSTS_def)
  have after: "is_safe_target (confirm_target (init_TargetConfig ''8.8.8.8'' p s))"
    by (simp add: is_safe_target_def confirm_target_def)
  from is_safe_target_iff_spec listed before after show ?thesis by blast
qed

theorem is_safe_target_contract_witness:
  "is_safe_target (init_TargetConfig ''LOCALHOST'' 8080 True)
   \<and> spec_is_safe (init_TargetConfig ''LOCALHOST'' 8080 True)
   \<and> is_safe_target (init_TargetConfig ''172.16.0.5'' 8080 True)
   \<and> \<not> is_safe_target (init_TargetConfig ''8.8.8.8'' 8080 True)
   \<and> is_safe_target (confirm_target (init_TargetConfig ''8.8.8.8'' 8080 True))"
proof -
  have "is_safe_target (init_TargetConfig ''LOCALHOST'' 8080 True)"
    by code_simp
  with is_safe_target_contract [of "init_TargetConfig ''LOCALHOST'' 8080 True" 8080 True]
  show ?thesis by simp
qed

text \<open>
  Claim C10. The private-range check is a textual prefix match: every host that begins
  with \<open>10.\<close>, with \<open>192.168.\<close>, or with \<open>172.\<close>, a number from 16 to 31 and a
  dot, is safe on an unconfirmed configuration, whatever follows the prefix. The host
  \<open>10.attacker.example\<close> is such a host and is not a dotted-quad IPv4 address.
\<close>

theorem private_prefix_unanchored:
  assumes "h = ''10.'' @ rest \<or> h = ''192.168.'' @ rest
           \<or> (16 \<le> k \<and> k \<le> 31 \<and> h = ''172.'' @ str_nat k @ ''.'' @ rest)"
  shows "is_safe_target \<lparr>host = h, port = p, use_https = s, confirmed = False\<rparr>
         \<and> is_safe_target (init_TargetConfig ''10.attacker.example'' p s)
         \<and> \<not> is_ipv4 ''10.attacker.example''"
proof -
  have "private_prefix h"
  proof -
    consider "h = ''10.'' @ rest" | "h = ''192.168.'' @ rest"
      | "16 \<le> k \<and> k \<le> 31 \<and> h = ''172.'' @ str_nat k @ ''.'' @ rest"
      using assms by blast
    then show ?thesis
    proof cases
      case 1
      then show ?thesis by (simp add: private_prefix_def)
    next
      case 2
      then show ?thesis by (simp add: private_prefix_def)
    next
      case 3
      then have "k \<in> {16 ..< 32}" by simp
      then have "k \<in> set second_octets" by (simp only: second_octets_def set_upt)
      moreover from 3 have "prefix (''172.'' @ str_nat k @ ''.'') h" by simp
      ultimately have "list_ex (\<lambda>k. prefix (''172.'' @ str_nat k @ ''.'') h) second_octets"
        unfolding list_ex_iff by blast
      then show ?thesis by (simp add: private_prefix_def)
    qed
  qed
  then have "is_safe_target \<lparr>host = h, port = p, use_https = s, confirmed = False\<rparr>"
    by (simp add: is_safe_target_def is_private_ip_iff)
  moreover have "is_safe_target (init_TargetConfig ''10.attacker.example'' p s)"
    by (simp add: is_safe_target_def init_TargetConfig_def is_private_ip_def
        private_patterns_def re_match_def)
  moreover have "\<not> is_ipv4 ''10.attacker.example''"
    by (simp add: is_ipv4_def)
  ultimately show ?thesis by blast
qed

theorem private_prefix_unanchored_witness:
  "is_safe_target \<lparr>host = ''172.20.evil.example'', port = 80, use_https = False, confirmed = False\<rparr>
   \<and> is_safe_target (init_TargetConfig ''10.attacker.example'' 80 False)
   \<and> \<not> is_ipv4 ''10.attacker.example''"
proof -
  have "str_nat 20 = ''20''" by (simp add: str_nat_two_digits digit_char_def)
  then have "(16::nat) \<le> 20 \<and> (20::nat) \<le> 31
      \<and> ''172.20.evil.example'' = ''172.'' @ str_nat 20 @ ''.'' @ ''evil.example''"
    by simp
  then show ?thesis
    using private_prefix_unanchored [of "''172.20.evil.example''" "''evil.example''" 20 80 False]
    by blast
qed

lemma base_url_agrees_with_spec:
  "port cfg \<noteq> default_port (\<not> use_https cfg) \<Longrightarrow> base_url cfg = spec_base_url cfg"
  by (auto simp: base_url_def spec_base_url_def default_port_def split: if_splits)

text \<open>
  Claim C7. The three listed configurations give \<open>http://localhost\<close>,
  \<open>http://localhost:8080\<close> and \<open>https://localhost\<close>. The port is dropped whenever it
  is 80 or 443, whatever the scheme: for http on port 443 the code returns
  \<open>http://localhost\<close>, where dropping the port exactly at the scheme's own default gives
  \<open>http://localhost:443\<close>.
\<close>

theorem base_url_drops_other_default:
  "base_url (init_TargetConfig ''localhost'' 80 False) = ''http://localhost''
   \<and> base_url (init_TargetConfig ''localhost'' 8080 False) = ''http://localhost:8080''
   \<and> base_url (init_TargetConfig ''localhost'' 443 True) = ''https://localhost''
   \<and> base_url (init_TargetConfig ''localhost'' 443 False) = ''http://localhost''
   \<and> spec_base_url (init_TargetConfig ''localhost'' 443 False) = ''http://localhost:443''"
  by (simp add: base_url_def spec_base_url_def init_TargetConfig_def default_port_def
      str_int_def str_nat_443 str_nat_8080)

text \<open>
  Claim C8, as stated: the path loses one leading slash and is appended after a single
  slash. The path \<open>//a\<close> shows the difference: the code removes both slashes.
\<close>

theorem get_dvwa_url_one_slash_counterexample:
  "get_dvwa_url (init_TargetConfig ''localhost'' 80 False) ''//a''
     \<noteq> spec_resolve_path (init_TargetConfig ''localhost'' 80 False) ''//a''"
  by (simp add: get_dvwa_url_def spec_resolve_path_def base_url_def init_TargetConfig_def
      lstrip_slash_def strip_one_slash_def)

text \<open>
  Claim C8, amended. \<open>get_dvwa_url\<close> removes every leading slash of the path and appends
  what is left, unchanged, to \<open>base_url\<close> after exactly one slash. With and without a
  leading slash, \<open>vulnerabilities/xss_r/\<close> resolves to
  \<open>http://localhost/vulnerabilities/xss_r/\<close> on the localhost:80 http configuration.
\<close>

theorem get_dvwa_url_strips_leading_slashes:
  assumes "\<not> prefix ''/'' rest"
  shows "get_dvwa_url cfg (replicate k CHR ''/'' @ rest) = base_url cfg @ ''/'' @ rest
         \<and> get_dvwa_url (init_TargetConfig ''localhost'' 80 False) ''vulnerabilities/xss_r/''
             = ''http://localhost/vulnerabilities/xss_r/''
         \<and> get_dvwa_url (init_TargetConfig ''localhost'' 80 False) ''/vulnerabilities/xss_r/''
             = ''http://localhost/vulnerabilities/xss_r/''"
proof -
  have "dropWhile (\<lambda>c. c = CHR ''/'') rest = rest"
    using assms by (cases rest) auto
  then have "dropWhile (\<lambda>c. c = CHR ''/'') (replicate k CHR ''/'' @ rest) = rest"
    by (induction k) auto
  then have "get_dvwa_url cfg (replicate k CHR ''/'' @ rest) = base_url cfg @ ''/'' @ rest"
    by (simp add: get_dvwa_url_def lstrip_slash_def)
  moreover have "get_dvwa_url (init_TargetConfig ''localhost'' 80 False) ''vulnerabilities/xss_r/''
             = ''http://localhost/vulnerabilities/xss_r/''"
    by (simp add: get_dvwa_url_def base_url_def init_TargetConfig_def lstrip_slash_def)
  moreover have "get_dvwa_url (init_TargetConfig ''localhost'' 80 False) ''/vulnerabilities/xss_r/''
             = ''http://localhost/vulnerabilities/xss_r/''"
    by (simp add: get_dvwa_url_def base_url_def init_TargetConfig_def lstrip_slash_def)
  ultimately show ?thesis by blast
qed

theorem get_dvwa_url_strips_leading_slashes_witness:
  "\<not> prefix ''/'' ''a/b''
   \<and> get_dvwa_url (init_TargetConfig ''localhost'' 8080 False) ''///a/b''
       = ''http://localhost:8080/a/b''"
proof -
  have h: "\<not> prefix ''/'' ''a/b''" by simp
  have r: "replicate 3 CHR ''/'' @ ''a/b'' = ''///a/b''" by (simp add: numeral_3_eq_3)
  have b: "base_url (init_TargetConfig ''localhost'' 8080 False) = ''http://localhost:8080''"
    by (simp add: base_url_def init_TargetConfig_def str_int_def str_nat_8080)
  from get_dvwa_url_strips_leading_slashes [OF h, of "init_TargetConfig ''localhost'' 8080 False" 3]
  show ?thesis using h by (simp add: r b)
qed

section \<open>Properties of the request dispatcher\<close>

lemmas action_defs = ret_def and_then_def seq_def skip_def logger_def operational_def
  educational_def

lemma logger_apply [simp]: "logger c s = (Inr (), s\<lparr>log := log s @ [c]\<rparr>)"
  by (simp add: logger_def)

lemma operational_apply [simp]:
  "operational m l s = (Inr (), s\<lparr>log := log s @ [Operational m l]\<rparr>)"
  by (simp add: operational_def)

lemma educational_apply [simp]:
  "educational m s = (Inr (), s\<lparr>log := log s @ [Educational m None]\<rparr>)"
  by (simp add: educational_def)

lemma ret_apply [simp]: "ret x s = (Inr x, s)"
  by (simp add: ret_def)

lemma skip_apply [simp]: "skip s = (Inr (), s)"
  by (simp add: skip_def)

lemma seq_apply:
  "seq m k s = (case m s of (Inl e, s') \<Rightarrow> (Inl e, s') | (Inr x, s') \<Rightarrow> k s')"
  by (simp add: seq_def and_then_def)

lemma seq_logger [simp]: "seq (logger c) k s = k (s\<lparr>log := log s @ [c]\<rparr>)"
  by (simp add: seq_apply)

lemma seq_operational [simp]:
  "seq (operational m l) k s = k (s\<lparr>log := log s @ [Operational m l]\<rparr>)"
  by (simp add: seq_apply)

lemma seq_educational [simp]:
  "seq (educational m) k s = k (s\<lparr>log := log s @ [Educational m None]\<rparr>)"
  by (simp add: seq_apply)

lemma seq_skip [simp]: "seq skip k s = k s"
  by (simp add: seq_apply)

lemma and_then_ret [simp]: "and_then (ret x) f s = f x s"
  by (simp add: and_then_def)

lemma recorder_record_result:
  "fst (recorder_record req s) = Inr ()
   \<and> wire (snd (recorder_record req s)) = wire s
   \<and> transport (snd (recorder_record req s)) = transport s"
  by (simp add: recorder_record_def split: option.splits)

lemma prepare_request_apply [simp]: "prepare_request req s = (prepare s req, s)"
  by (simp add: prepare_request_def)

lemma session_send_apply [simp]:
  "session_send req s = (transport s (wire s) req, s\<lparr>wire := wire s @ [req]\<rparr>)"
  by (simp add: session_send_def)

lemma and_then_apply:
  "and_then m f s = (case m s of (Inl e, s') \<Rightarrow> (Inl e, s') | (Inr x, s') \<Rightarrow> f x s')"
  by (simp add: and_then_def)

lemma and_then_Inr: "m s = (Inr x, s') \<Longrightarrow> and_then m f s = f x s'"
  by (simp add: and_then_def)

lemma and_then_Inl: "m s = (Inl e, s') \<Longrightarrow> and_then m f s = (Inl e, s')"
  by (simp add: and_then_def)

lemma seq_Inr: "m s = (Inr x, s') \<Longrightarrow> seq m k s = k s'"
  by (simp add: seq_apply)

lemma seq_Inl: "m s = (Inl e, s') \<Longrightarrow> seq m k s = (Inl e, s')"
  by (simp add: seq_apply)

text \<open>The two logging steps between preparing and sending leave the network untouched.\<close>

lemma before_send_fields [simp]:
  "wire (before_send pu req s) = wire s"
  "transport (before_send pu req s) = transport s"
  "prepare (before_send pu req s) = prepare s"
  "keyboard (before_send pu req s) = keyboard s"
  "logged_in (before_send pu req s) = logged_in s"
  by (simp_all add: before_send_def recorder_record_def split: option.splits)

lemma send_try_prepared:
  assumes "prepare s req = Inr pu"
  shows "send_try req s =
     (case transport s (wire s) req of
        Inl e \<Rightarrow> (Inl e, (before_send pu req s)\<lparr>wire := wire s @ [req]\<rparr>)
      | Inr r \<Rightarrow>
          (Inr (Some r), (before_send pu req s)
             \<lparr>wire := wire s @ [req],
               log := log (before_send pu req s) @
                 [HttpResponse (status_code r) (take 200 (resp_text r))]\<rparr>))"
proof -
  have "send_try req s =
      and_then (session_send req) (\<lambda>response.
         seq (logger (HttpResponse (status_code response) (take 200 (resp_text response))))
             (ret (Some response))) (before_send pu req s)"
    using assms
    by (simp add: send_try_def and_then_apply [of "prepare_request _"] seq_apply [of "\<lambda>s. if _ s then _ s else _ s"]
        before_send_def recorder_record_def split: option.splits)
  then show ?thesis
    by (cases "transport s (wire s) req") (simp_all add: and_then_apply)
qed

lemma send_try_not_prepared:
  "prepare s req = Inl e \<Longrightarrow> send_try req s = (Inl e, s)"
  by (simp add: send_try_def and_then_apply)

lemma send_prepared:
  assumes "prepare s \<lparr>req_method = method, req_url = u, req_params = params, req_data = data\<rparr>
             = Inr pu"
  shows "send method u params data s =
     (let req = \<lparr>req_method = method, req_url = u, req_params = params, req_data = data\<rparr>;
          s2 = (before_send pu req s)\<lparr>wire := wire s @ [req]\<rparr>
      in case transport s (wire s) req of
           Inl (RequestException m) \<Rightarrow>
             (Inr None, s2\<lparr>log := log s2 @
                 [Operational (method_name method @ '' request failed: '' @ m) ''ERROR'']\<rparr>)
         | Inl (OtherException m) \<Rightarrow> (Inl (OtherException m), s2)
         | Inl KeyboardInterrupt \<Rightarrow> (Inl KeyboardInterrupt, s2)
         | Inr r \<Rightarrow>
             (Inr (Some r), s2\<lparr>log := log s2 @
                 [HttpResponse (status_code r) (take 200 (resp_text r))]\<rparr>))"
  unfolding send_def except_RequestException_def send_try_prepared [OF assms] Let_def
  by (simp split: sum.splits exn.splits)

lemma send_not_prepared:
  assumes "prepare s \<lparr>req_method = method, req_url = u, req_params = params, req_data = data\<rparr>
             = Inl e"
  shows "send method u params data s =
     (case e of
        RequestException m \<Rightarrow>
          (Inr None, s\<lparr>log := log s @
              [Operational (method_name method @ '' request failed: '' @ m) ''ERROR'']\<rparr>)
      | OtherException m \<Rightarrow> (Inl (OtherException m), s)
      | KeyboardInterrupt \<Rightarrow> (Inl KeyboardInterrupt, s))"
  unfolding send_def except_RequestException_def send_try_not_prepared [OF assms]
  by (simp split: exn.splits)

text \<open>
  Claim C6. \<open>get\<close> and \<open>post\<close> are \<open>_send\<close> with the method fixed. Whatever the
  network does, \<open>_send\<close> never lets a \<open>RequestException\<close> reach its caller: when
  preparing or sending raises one, the result is \<open>None\<close> and the last logger call is an
  ERROR entry carrying the exception text; when the request is prepared and sent, the
  result is the received response.
\<close>

theorem dispatcher_catches_transport_exceptions:
  fixes meth :: http_method and u :: string
    and params data :: "(string \<times> string) list option" and req :: Request
  defines "req \<equiv> \<lparr>req_method = meth, req_url = u, req_params = params, req_data = data\<rparr>"
  shows "fst (send meth u params data s) \<noteq> Inl (RequestException m')
    \<and> (prepare s req = Inl (RequestException m) \<or>
        (prepare s req = Inr pu \<and> transport s (wire s) req = Inl (RequestException m))
       \<longrightarrow> fst (send meth u params data s) = Inr None
         \<and> last (log (snd (send meth u params data s)))
             = Operational (method_name meth @ '' request failed: '' @ m) ''ERROR'')
    \<and> (prepare s req = Inr pu \<and> transport s (wire s) req = Inr r
       \<longrightarrow> fst (send meth u params data s) = Inr (Some r))
    \<and> http_get u params = send GET u params None
    \<and> http_post u data = send POST u None data"
proof -
  have never: "fst (send meth u params data s) \<noteq> Inl (RequestException m')"
  proof (cases "prepare s req")
    case (Inl e)
    then show ?thesis
      unfolding req_def by (cases e) (simp_all add: send_not_prepared)
  next
    case (Inr pu')
    then show ?thesis
      unfolding req_def
      by (simp add: send_prepared Let_def split: sum.splits exn.splits)
  qed
  have caught1: "fst (send meth u params data s) = Inr None
         \<and> last (log (snd (send meth u params data s)))
             = Operational (method_name meth @ '' request failed: '' @ m) ''ERROR''"
    if "prepare s req = Inl (RequestException m)"
    using that unfolding req_def by (simp add: send_not_prepared)
  have caught2: "fst (send meth u params data s) = Inr None
         \<and> last (log (snd (send meth u params data s)))
             = Operational (method_name meth @ '' request failed: '' @ m) ''ERROR''"
    if "prepare s req = Inr pu" "transport s (wire s) req = Inl (RequestException m)"
    using that unfolding req_def by (simp add: send_prepared Let_def)
  have ok: "fst (send meth u params data s) = Inr (Some r)"
    if "prepare s req = Inr pu" "transport s (wire s) req = Inr r"
    using that unfolding req_def by (simp add: send_prepared Let_def)
  have "http_get u params = send GET u params None" "http_post u data = send POST u None data"
    by (simp_all add: http_get_def http_post_def)
  with never caught1 caught2 ok show ?thesis by blast
qed

theorem dispatcher_catches_transport_exceptions_witness:
  "fst (http_get ''http://localhost/login.php'' None (fresh_state refused [])) = Inr None
   \<and> last (log (snd (http_get ''http://localhost/login.php'' None (fresh_state refused []))))
       = Operational ''GET request failed: Connection refused'' ''ERROR''
   \<and> fst (http_post ''http://localhost/login.php'' None (fresh_state (static_site 200 ''ok'') []))
       = Inr (Some (page 200 ''ok'' ''http://localhost/login.php''))"
proof -
  let ?g = "\<lparr>req_method = GET, req_url = ''http://localhost/login.php'',
             req_params = None, req_data = None\<rparr>"
  let ?p = "\<lparr>req_method = POST, req_url = ''http://localhost/login.php'',
             req_params = None, req_data = None\<rparr>"
  have g: "prepare (fresh_state refused []) ?g = Inr ''http://localhost/login.php''
      \<and> transport (fresh_state refused []) (wire (fresh_state refused [])) ?g
          = Inl (RequestException ''Connection refused'')"
    by (simp add: fresh_state_def refused_def)
  have p: "prepare (fresh_state (static_site 200 ''ok'') []) ?p = Inr ''http://localhost/login.php''
      \<and> transport (fresh_state (static_site 200 ''ok'') [])
            (wire (fresh_state (static_site 200 ''ok'') [])) ?p
          = Inr (page 200 ''ok'' ''http://localhost/login.php'')"
    by (simp add: fresh_state_def static_site_def)
  from g dispatcher_catches_transport_exceptions
         [of GET "''http://localhost/login.php''" None None "fresh_state refused []"]
  have 1: "fst (http_get ''http://localhost/login.php'' None (fresh_state refused [])) = Inr None
   \<and> last (log (snd (http_get ''http://localhost/login.php'' None (fresh_state refused []))))
       = Operational ''GET request failed: Connection refused'' ''ERROR''"
    by (simp add: method_name_def)
  from p dispatcher_catches_transport_exceptions
         [of POST "''http://localhost/login.php''" None None "fresh_state (static_site 200 ''ok'') []"]
  have 2: "fst (http_post ''http://localhost/login.php'' None (fresh_state (static_site 200 ''ok'') []))
       = Inr (Some (page 200 ''ok'' ''http://localhost/login.php''))"
    by simp
  from 1 2 show ?thesis by blast
qed

lemma variants_loop_result: "fst (variants_loop vs body s) = Inr False"
  by (induction vs) simp_all

lemma check_xss_reflection_result:
  "fst (check_xss_reflection response payload s) =
     Inr (case response of None \<Rightarrow> False
          | Some r \<Rightarrow> response_ok r \<and> py_in payload (resp_text r))"
  by (simp add: check_xss_reflection_def variants_loop_result split: option.splits)

lemma check_xss_reflection_ok_response:
  "response_ok r \<Longrightarrow>
     fst (check_xss_reflection (Some r) payload s) = Inr (spec_check_reflection (Some r) payload)"
  by (simp add: check_xss_reflection_result spec_check_reflection_def spec_classify_def)

lemma check_xss_reflection_spec_examples:
  "fst (check_xss_reflection (Some (page 200 ''<p><script>alert(1)</script></p>'' u))
          ''<script>alert(1)</script>'' s) = Inr True
   \<and> fst (check_xss_reflection (Some (page 200 ''<p>&lt;script&gt;alert(1)&lt;/script&gt;</p>'' u))
          ''<script>alert(1)</script>'' s) = Inr False
   \<and> fst (check_xss_reflection (Some (page 200 ''<p>hello</p>'' u))
          ''<script>alert(1)</script>'' s) = Inr False
   \<and> fst (check_xss_reflection None ''<script>alert(1)</script>'' s) = Inr False"
  by (simp add: check_xss_reflection_result page_def response_ok_def py_in_def sublist_code)

text \<open>
  Claim C3. A response object is falsy when its status is an error status, and the
  classifier's first test is \<open>if not response\<close>: on a 404 page whose body carries the
  payload verbatim the classifier answers false, where the claim (and the method's own
  docstring) promise true.
\<close>

theorem check_xss_reflection_error_status:
  "fst (check_xss_reflection
          (Some \<lparr>status_code = 404,
                 resp_text = ''<p>Not found: <script>alert(1)</script></p>'',
                 resp_url = ''http://localhost/vulnerabilities/xss_r/''\<rparr>)
          ''<script>alert(1)</script>'' s) = Inr False
   \<and> py_in ''<script>alert(1)</script>'' ''<p>Not found: <script>alert(1)</script></p>''
   \<and> spec_check_reflection
          (Some \<lparr>status_code = 404,
                 resp_text = ''<p>Not found: <script>alert(1)</script></p>'',
                 resp_url = ''http://localhost/vulnerabilities/xss_r/''\<rparr>)
          ''<script>alert(1)</script>''"
  by (simp add: check_xss_reflection_result response_ok_def spec_check_reflection_def
      spec_classify_def py_in_def sublist_code)

section \<open>Properties of the authenticator\<close>

lemma wp_ret [simp]: "wp (ret x) Q s = Q (Inr x) s"
  by (simp add: wp_def)

lemma wp_skip [simp]: "wp skip Q s = Q (Inr ()) s"
  by (simp add: wp_def)

lemma wp_gets [simp]: "wp (gets f) Q s = Q (Inr (f s)) s"
  by (simp add: wp_def gets_def)

lemma wp_modify [simp]: "wp (modify f) Q s = Q (Inr ()) (f s)"
  by (simp add: wp_def modify_def)

lemma logged_fields [simp]:
  "prepare (logged c s) = prepare s"
  "transport (logged c s) = transport s"
  "keyboard (logged c s) = keyboard s"
  "recorder_fails (logged c s) = recorder_fails s"
  "soup_user_token (logged c s) = soup_user_token s"
  "soup_selected_option (logged c s) = soup_selected_option s"
  "explanations (logged c s) = explanations s"
  "user_agent (logged c s) = user_agent s"
  "has_recorder (logged c s) = has_recorder s"
  "auth_base_url (logged c s) = auth_base_url s"
  "wire (logged c s) = wire s"
  "log (logged c s) = log s @ [c]"
  "recorded (logged c s) = recorded s"
  "logged_in (logged c s) = logged_in s"
  "security_level (logged c s) = security_level s"
  "reflected_details_logged (logged c s) = reflected_details_logged s"
  "stored_details_logged (logged c s) = stored_details_logged s"
  by (simp_all add: logged_def)

lemma sent_fields [simp]:
  "prepare (sent r s) = prepare s"
  "transport (sent r s) = transport s"
  "keyboard (sent r s) = keyboard s"
  "recorder_fails (sent r s) = recorder_fails s"
  "soup_user_token (sent r s) = soup_user_token s"
  "soup_selected_option (sent r s) = soup_selected_option s"
  "explanations (sent r s) = explanations s"
  "user_agent (sent r s) = user_agent s"
  "has_recorder (sent r s) = has_recorder s"
  "auth_base_url (sent r s) = auth_base_url s"
  "wire (sent r s) = wire s @ [r]"
  "log (sent r s) = log s"
  "recorded (sent r s) = recorded s"
  "logged_in (sent r s) = logged_in s"
  "security_level (sent r s) = security_level s"
  "reflected_details_logged (sent r s) = reflected_details_logged s"
  "stored_details_logged (sent r s) = stored_details_logged s"
  by (simp_all add: sent_def)

lemma extract_csrf_token_traces [simp]:
  "extract_csrf_token (logged c s) h = extract_csrf_token s h"
  "extract_csrf_token (sent r s) h = extract_csrf_token s h"
  by (simp_all add: extract_csrf_token_def)

lemma wp_logger [simp]: "wp (logger c) Q s = Q (Inr ()) (logged c s)"
  by (simp add: wp_def logged_def)

lemma wp_operational [simp]:
  "wp (operational m l) Q s = Q (Inr ()) (logged (Operational m l) s)"
  by (simp add: wp_def logged_def)

lemma wp_educational [simp]:
  "wp (educational m) Q s = Q (Inr ()) (logged (Educational m None) s)"
  by (simp add: wp_def logged_def)

lemma wp_and_then [simp]:
  "wp (and_then m f) Q s =
     wp m (\<lambda>r s'. case r of Inl e \<Rightarrow> Q (Inl e) s' | Inr x \<Rightarrow> wp (f x) Q s') s"
  by (simp add: wp_def and_then_def split: prod.splits sum.splits)

lemma wp_seq [simp]:
  "wp (seq m k) Q s =
     wp m (\<lambda>r s'. case r of Inl e \<Rightarrow> Q (Inl e) s' | Inr x \<Rightarrow> wp k Q s') s"
  by (simp add: seq_def)

lemma wp_except_RequestException [simp]:
  "wp (except_RequestException m h) Q s =
     wp m (\<lambda>r s'. case r of Inl (RequestException msg) \<Rightarrow> wp (h msg) Q s' | _ \<Rightarrow> Q r s') s"
  by (simp add: wp_def except_RequestException_def split: prod.splits sum.splits exn.splits)

lemma wp_except_Exception [simp]:
  "wp (except_Exception m h) Q s =
     wp m (\<lambda>r s'. case r of
                     Inl (RequestException msg) \<Rightarrow> wp (h msg) Q s'
                   | Inl (OtherException msg) \<Rightarrow> wp (h msg) Q s'
                   | _ \<Rightarrow> Q r s') s"
  by (simp add: wp_def except_Exception_def split: prod.splits sum.splits exn.splits)

lemma wp_if [simp]:
  "wp (if b then m1 else m2) Q s = (if b then wp m1 Q s else wp m2 Q s)"
  by simp

lemma wp_let [simp]: "wp (let x = v in f x) Q s = wp (f v) Q s"
  by simp

lemma wp_case_option [simp]:
  "wp (case x of None \<Rightarrow> m | Some y \<Rightarrow> f y) Q s =
     (case x of None \<Rightarrow> wp m Q s | Some y \<Rightarrow> wp (f y) Q s)"
  by (simp split: option.splits)

lemma wp_prepare_request [simp]: "wp (prepare_request req) Q s = Q (prepare s req) s"
  by (simp add: wp_def)

lemma wp_session_send [simp]:
  "wp (session_send req) Q s = Q (transport s (wire s) req) (sent req s)"
  by (simp add: wp_def sent_def)

lemma wp_session_get:
  "wp (session_get u) Q s =
     (let req = \<lparr>req_method = GET, req_url = u, req_params = None, req_data = None\<rparr> in
      case prepare s req of
        Inl e \<Rightarrow> Q (Inl e) s
      | Inr pu \<Rightarrow> Q (transport s (wire s) req) (sent req s))"
  by (simp add: session_get_def Let_def split: sum.splits)

lemma wp_session_post:
  "wp (session_post u data) Q s =
     (let req = \<lparr>req_method = POST, req_url = u, req_params = None, req_data = Some data\<rparr> in
      case prepare s req of
        Inl e \<Rightarrow> Q (Inl e) s
      | Inr pu \<Rightarrow> Q (transport s (wire s) req) (sent req s))"
  by (simp add: session_post_def Let_def split: sum.splits)

lemma wpI: "wp m Q s \<Longrightarrow> Q (fst (m s)) (snd (m s))"
  by (simp add: wp_def)

lemmas auth_splits = sum.splits exn.splits option.splits if_splits


end
